theory Spec2Isabelle
  imports Complex_Main "HOL-Library.List_Lexorder" "HOL-Library.Char_ord" "HOL-Library.Log_Nat"
begin

section \<open>The relational store\<close>

text \<open>
  The handlers of the finance tracker keep no state of their own: every route reads and
  writes the PostgreSQL tables of the \<^verbatim>\<open>finance\<close> schema. A table is a list of rows
  (order of insertion), a row is a record of the columns the handlers touch. Money in
  the database (a \<^verbatim>\<open>DECIMAL\<close> column, the decimal text of a request field) is an exact
  rational, an id is a natural number, a date is the number of its day. What JavaScript
  computes from such values is a double: see the section on JavaScript values.
\<close>

record account =
  account_id :: nat
  account_user_id :: nat
  current_balance :: rat
  is_active :: bool

record transfer =
  from_account_id :: nat
  to_account_id :: nat
  transfer_amount :: rat
  transfer_date :: string
  transfer_description :: string
  fee_amount :: rat
  transfer_notes :: "string option"

record txn =
  txn_user_id :: nat
  txn_account_id :: nat
  txn_category_id :: nat
  txn_amount :: rat
  txn_description :: string
  transaction_date :: int
  transaction_type :: string
  txn_receipt_id :: "nat option"

record category =
  category_id :: nat
  category_name :: string
  category_type :: string

record budget =
  budget_id :: nat
  budget_user_id :: nat
  budget_name :: string
  start_date :: int
  end_date :: int
  total_budget :: rat
  created_date :: int
  budget_is_active :: bool

record budget_category =
  bc_budget_id :: nat
  bc_category_id :: nat
  allocated_amount :: rat

record receipt =
  receipt_id :: nat
  receipt_user_id :: nat
  transaction_created :: bool

record db =
  accounts :: "account list"
  transfers :: "transfer list"
  transactions :: "txn list"
  categories :: "category list"
  budgets :: "budget list"
  budget_categories :: "budget_category list"
  receipts :: "receipt list"

section \<open>JavaScript values\<close>

subsection \<open>The ids of a request body\<close>

text \<open>
  \<^verbatim>\<open>express.json\<close> and \<^verbatim>\<open>express.urlencoded\<close> (server.js 77-78) deliver a field of
  the body as a number or as a string, and \<^verbatim>\<open>isInt\<close> of the validation chains lets
  both pass: the number \<^verbatim>\<open>1\<close> and the string \<^verbatim>\<open>"1"\<close>. No handler converts the
  string. \<open>IdNumber n\<close> is the number \<open>n\<close>, \<open>IdString n\<close> a string of digits that reads
  \<open>n\<close>. An id that comes from a database row is a number. \<^verbatim>\<open>===\<close> holds between two
  numbers of the same value and never between a number and a string; a query
  parameter is read by the database as the integer it denotes, whichever form it has.
\<close>

datatype id_field = IdNumber nat | IdString nat

fun id_value :: "id_field \<Rightarrow> nat" where
  "id_value (IdNumber n) = n"
| "id_value (IdString n) = n"

definition strict_equal :: "nat \<Rightarrow> id_field \<Rightarrow> bool" where
  "strict_equal n v = (v = IdNumber n)"

subsection \<open>Numbers\<close>

text \<open>
  A JavaScript number is an IEEE 754 double: a finite value, an infinity or \<^verbatim>\<open>NaN\<close>.
  A finite double is kept as the rational it denotes; the two zeros are one value.
\<close>

datatype js_number = Finite rat | PosInfinity | NegInfinity | NaN

text \<open>
  \<open>round_to_double x\<close> is the double nearest to the rational \<open>x\<close>, a tie going to the
  even mantissa: 53 bits of mantissa at the binary exponent of \<open>x\<close>, the spacing of
  exponent -1022 below it (subnormal numbers), an infinity when the rounded value
  needs an exponent above 1023. \<open>binary_exponent x\<close> is the \<open>e\<close> with
  \<open>2 ^ e \<le> \<bar>x\<bar> < 2 ^ (e + 1)\<close>, found from the bit lengths of numerator and
  denominator.
\<close>

definition pow2 :: "int \<Rightarrow> rat" where
  "pow2 e = (if 0 \<le> e then 2 ^ nat e else 1 / 2 ^ nat (- e))"

definition binary_exponent :: "rat \<Rightarrow> int" where
  "binary_exponent x =
     (let (p, q) = quotient_of \<bar>x\<bar>; e = bitlen p - bitlen q
      in if pow2 e \<le> \<bar>x\<bar> then e else e - 1)"

definition round_half_even :: "rat \<Rightarrow> int" where
  "round_half_even x =
     (let n = \<lfloor>x\<rfloor>; r = x - of_int n
      in if r < 1 / 2 then n else if 1 / 2 < r then n + 1 else if even n then n else n + 1)"

definition round_to_double :: "rat \<Rightarrow> js_number" where
  "round_to_double x =
     (if x = 0 then Finite 0
      else
        (let e = max (binary_exponent x) (- 1022);
             ulp = pow2 (e - 52);
             y = of_int (round_half_even (x / ulp)) * ulp
         in if 1023 < binary_exponent y then (if 0 < x then PosInfinity else NegInfinity)
            else Finite y))"

text \<open>
  \<^verbatim>\<open>parseFloat\<close> of the decimal text of a request field or of a \<^verbatim>\<open>DECIMAL\<close> column
  (the driver hands such a column over as text) is the double nearest to the decimal;
  so is the number that \<^verbatim>\<open><\<close> and \<^verbatim>\<open>>\<close> make of such a text, and the number that
  \<^verbatim>\<open>JSON.parse\<close> makes of a numeral.
\<close>

definition parseFloat :: "rat \<Rightarrow> js_number" where
  "parseFloat x = round_to_double x"

text \<open>
  The operators \<^verbatim>\<open>+\<close>, \<^verbatim>\<open>-\<close>, \<^verbatim>\<open>*\<close>, \<^verbatim>\<open>/\<close> and \<^verbatim>\<open><\<close> on numbers: the exact
  result, rounded; \<^verbatim>\<open>NaN\<close> compares false with everything.
\<close>

fun number_negate :: "js_number \<Rightarrow> js_number" where
  "number_negate (Finite x) = Finite (- x)"
| "number_negate PosInfinity = NegInfinity"
| "number_negate NegInfinity = PosInfinity"
| "number_negate NaN = NaN"


fun number_add :: "js_number \<Rightarrow> js_number \<Rightarrow> js_number" where
  "number_add (Finite x) (Finite y) = round_to_double (x + y)"
| "number_add NaN b = NaN"
| "number_add a NaN = NaN"
| "number_add PosInfinity NegInfinity = NaN"
| "number_add NegInfinity PosInfinity = NaN"
| "number_add PosInfinity b = PosInfinity"
| "number_add NegInfinity b = NegInfinity"
| "number_add a PosInfinity = PosInfinity"
| "number_add a NegInfinity = NegInfinity"

definition number_subtract :: "js_number \<Rightarrow> js_number \<Rightarrow> js_number" where
  "number_subtract a b = number_add a (number_negate b)"

fun number_multiply :: "js_number \<Rightarrow> js_number \<Rightarrow> js_number" where
  "number_multiply (Finite x) (Finite y) = round_to_double (x * y)"
| "number_multiply NaN b = NaN"
| "number_multiply a NaN = NaN"
| "number_multiply (Finite x) b =
     (if x = 0 then NaN else if 0 < x then b else number_negate b)"
| "number_multiply a (Finite y) =
     (if y = 0 then NaN else if 0 < y then a else number_negate a)"
| "number_multiply a b = (if a = b then PosInfinity else NegInfinity)"

fun number_divide :: "js_number \<Rightarrow> js_number \<Rightarrow> js_number" where
  "number_divide (Finite x) (Finite y) =
     (if y = 0 then (if x = 0 then NaN else if 0 < x then PosInfinity else NegInfinity)
      else round_to_double (x / y))"
| "number_divide NaN b = NaN"
| "number_divide a NaN = NaN"
| "number_divide (Finite x) b = Finite 0"
| "number_divide a (Finite y) = (if 0 \<le> y then a else number_negate a)"
| "number_divide a b = NaN"

fun number_less :: "js_number \<Rightarrow> js_number \<Rightarrow> bool" where
  "number_less (Finite x) (Finite y) = (x < y)"
| "number_less NaN b = False"
| "number_less a NaN = False"
| "number_less a NegInfinity = False"
| "number_less PosInfinity b = False"
| "number_less NegInfinity b = True"
| "number_less a PosInfinity = True"

section \<open>Create transfer (routes/transfers.js, \<^verbatim>\<open>router.post('/')\<close>)\<close>

text \<open>
  The request is \<^verbatim>\<open>req.body\<close> as the handler reads it, after the validation chain has
  run: the description is trimmed, \<^verbatim>\<open>transferDate\<close> and \<^verbatim>\<open>feeAmount\<close> have their
  defaults filled in, \<^verbatim>\<open>amount\<close> and \<^verbatim>\<open>feeAmount\<close> are the decimals written in the
  body. The chain itself (\<^verbatim>\<open>isInt\<close>, \<^verbatim>\<open>isFloat\<close>, \<^verbatim>\<open>trim\<close>, \<^verbatim>\<open>isLength\<close>,
  \<^verbatim>\<open>isISO8601\<close>) is evaluated by express-validator; the handler sees its result,
  \<^verbatim>\<open>validationResult(req)\<close>, the list \<open>errors\<close> of the messages of the rules that
  failed.
\<close>

record transfer_request =
  fromAccountId :: id_field
  toUserId :: id_field
  amount :: rat
  description :: string
  transferDate :: string
  req_notes :: "string option"
  feeAmount :: rat

text \<open>
  \<^verbatim>\<open>SELECT ... FROM finance.accounts WHERE account_id = $1\<close> and
  \<^verbatim>\<open>SELECT ... FROM finance.accounts WHERE user_id = $1 ORDER BY account_id ASC LIMIT 1\<close>.
\<close>

definition select_account :: "db \<Rightarrow> nat \<Rightarrow> account list" where
  "select_account d aid = filter (\<lambda>a. account_id a = aid) (accounts d)"

definition select_recipient_account :: "db \<Rightarrow> nat \<Rightarrow> account list" where
  "select_recipient_account d uid =
     take 1 (sort_key account_id (filter (\<lambda>a. account_user_id a = uid) (accounts d)))"

text \<open>
  Any statement of the handler may throw; the \<^verbatim>\<open>catch\<close> block then issues
  \<^verbatim>\<open>ROLLBACK\<close> and answers 500. What matters is where the failing statement stands:
  among \<^verbatim>\<open>BEGIN\<close> and the two \<^verbatim>\<open>SET\<close>s, among the account look-ups,
  at the \<^verbatim>\<open>INSERT\<close> or \<^verbatim>\<open>COMMIT\<close>, or at the re-read of the balances after the
  commit.
\<close>

datatype fault = NoFault | FaultSetup | FaultLookup | FaultInsert | FaultReread

text \<open>
  The responses of the handler, one constructor for each \<^verbatim>\<open>res.status(..).json(..)\<close>.
  The insufficient-balance answer shows the balance as the column has it and the
  required sum as the number the handler computed; the new balances of a created
  transfer are \<^verbatim>\<open>parseFloat\<close> of the columns.
\<close>

datatype transfer_response =
    ValidationErrors "string list"
  | CannotTransferToYourself
  | SourceAccountNotFound
  | RecipientHasNoActiveAccounts
  | NoPermission
  | InsufficientBalance rat js_number
  | SameAccounts
  | TransferCreated transfer js_number js_number
  | FailedToCreateTransfer


fun transfer_success :: "transfer_response \<Rightarrow> bool" where
  "transfer_success (TransferCreated t fromBalance toBalance) = True"
| "transfer_success r = False"


text \<open>
  The handler. \<open>userId\<close> is \<^verbatim>\<open>req.user.user_id\<close>, the number \<^verbatim>\<open>authenticateToken\<close>
  read from the users table. The checks stand in the order of the source.
  \<^verbatim>\<open>userId === toUserId\<close> (line 223) and \<^verbatim>\<open>fromAccountId === toAccountId\<close>
  (line 303) compare a number with a field of the body; the two look-ups and the
  \<^verbatim>\<open>INSERT\<close> pass the fields to the database. \<^verbatim>\<open>totalDeduction\<close> is the sum of two
  doubles, and \<^verbatim>\<open>fromAccount.current_balance < totalDeduction\<close> compares the number of
  the balance column with it. The balances are not written by the handler: the source
  says ``triggers will automatically update account balances'', and the trigger is not
  part of the JavaScript sources, so it is the parameter \<open>on_insert\<close>, run on the
  accounts table when the row is inserted. A rejected request returns before the
  \<^verbatim>\<open>INSERT\<close>; a statement that throws before the commit is rolled back.
\<close>

definition create_transfer ::
  "(transfer \<Rightarrow> account list \<Rightarrow> account list) \<Rightarrow> fault \<Rightarrow> string list \<Rightarrow> nat
     \<Rightarrow> transfer_request \<Rightarrow> db \<Rightarrow> transfer_response \<times> db" where
  "create_transfer on_insert flt errors userId req d =
     (if errors \<noteq> [] then (ValidationErrors errors, d)
      else if flt = FaultSetup then (FailedToCreateTransfer, d)
      else if strict_equal userId (toUserId req) then (CannotTransferToYourself, d)
      else if flt = FaultLookup then (FailedToCreateTransfer, d)
      else
        (case select_account d (id_value (fromAccountId req)) of
           [] \<Rightarrow> (SourceAccountNotFound, d)
         | fromAccount # fromRest \<Rightarrow>
            (case select_recipient_account d (id_value (toUserId req)) of
               [] \<Rightarrow> (RecipientHasNoActiveAccounts, d)
             | toAccount # toRest \<Rightarrow>
                (let toAccountId = account_id toAccount;
                     totalDeduction =
                       number_add (parseFloat (amount req)) (parseFloat (feeAmount req))
                 in if account_user_id fromAccount \<noteq> userId then (NoPermission, d)
                    else if number_less (round_to_double (current_balance fromAccount))
                              totalDeduction
                      then (InsufficientBalance (current_balance fromAccount) totalDeduction, d)
                    else if strict_equal toAccountId (fromAccountId req) then (SameAccounts, d)
                    else if flt = FaultInsert then (FailedToCreateTransfer, d)
                    else
                      (let newTransfer =
                             \<lparr> from_account_id = id_value (fromAccountId req),
                               to_account_id = toAccountId,
                               transfer_amount = amount req,
                               transfer_date = transferDate req,
                               transfer_description = description req,
                               fee_amount = feeAmount req,
                               transfer_notes = req_notes req \<rparr>;
                           d' = d \<lparr> transfers := transfers d @ [newTransfer],
                                   accounts := on_insert newTransfer (accounts d) \<rparr>
                       in if flt = FaultReread then (FailedToCreateTransfer, d')
                          else
                            (case (select_account d' (id_value (fromAccountId req)),
                                   select_account d' toAccountId) of
                               (fromBalance # r1, toBalance # r2) \<Rightarrow>
                                 (TransferCreated newTransfer
                                    (parseFloat (current_balance fromBalance))
                                    (parseFloat (current_balance toBalance)), d')
                             | _ \<Rightarrow> (FailedToCreateTransfer, d')))))))"

text \<open>
  Modelled from the spec: the account store's \<^verbatim>\<open>adjustBalance(id, delta)\<close>, the only
  writer of \<^verbatim>\<open>current_balance\<close>, is not in the sources. It adds \<open>delta\<close> to the balance
  of the account with the given id.
\<close>

definition adjustBalance :: "nat \<Rightarrow> rat \<Rightarrow> account list \<Rightarrow> account list" where
  "adjustBalance aid delta rows =
     map (\<lambda>a. if account_id a = aid
               then a \<lparr> current_balance := current_balance a + delta \<rparr> else a) rows"

text \<open>
  Modelled from the spec: the database trigger on \<^verbatim>\<open>finance.transfers\<close> that the
  handler relies on for the balances is not in the sources. The specification gives
  its effect: the source account balance decreases by \<open>amount + feeAmount\<close>, the
  destination account balance increases by \<open>amount\<close>.
\<close>

definition balance_trigger :: "transfer \<Rightarrow> account list \<Rightarrow> account list" where
  "balance_trigger t rows =
     adjustBalance (to_account_id t) (transfer_amount t)
       (adjustBalance (from_account_id t) (- (transfer_amount t + fee_amount t)) rows)"

text \<open>
  The quantities of the conservation property: the sum of all account balances, the
  fees of all recorded transfers, and the store after a sequence of create-transfer
  requests, each with its caller and the fault it meets.
\<close>

definition total_balance :: "db \<Rightarrow> rat" where
  "total_balance d = sum_list (map current_balance (accounts d))"

definition fees_collected :: "db \<Rightarrow> rat" where
  "fees_collected d = sum_list (map fee_amount (transfers d))"

fun run_transfers ::
  "(transfer \<Rightarrow> account list \<Rightarrow> account list) \<Rightarrow> (fault \<times> nat \<times> transfer_request) list \<Rightarrow> db \<Rightarrow> db" where
  "run_transfers on_insert [] d = d"
| "run_transfers on_insert ((flt, userId, req) # rest) d =
     run_transfers on_insert rest (snd (create_transfer on_insert flt [] userId req d))"

section \<open>Budgets (the budgets route)\<close>

subsection \<open>Quotients and percentages\<close>

text \<open>
  \<^verbatim>\<open>parseFloat\<close> of a \<^verbatim>\<open>DECIMAL\<close> column is a finite number; a division of two such
  numbers is finite unless the divisor is zero, where JavaScript answers \<^verbatim>\<open>NaN\<close>
  (for 0 / 0) or an infinity with the sign of the dividend. \<^verbatim>\<open>JSON.stringify\<close> writes
  all three as \<^verbatim>\<open>null\<close>. The figures of the budget read handlers are kept exact:
  \<open>js_divide\<close> and \<open>times_100\<close> do not round a finite result.
\<close>

definition js_divide :: "rat \<Rightarrow> rat \<Rightarrow> js_number" where
  "js_divide x y =
     (if y = 0 then (if x = 0 then NaN else if 0 < x then PosInfinity else NegInfinity)
      else Finite (x / y))"

fun times_100 :: "js_number \<Rightarrow> js_number" where
  "times_100 (Finite x) = Finite (x * 100)"
| "times_100 PosInfinity = PosInfinity"
| "times_100 NegInfinity = NegInfinity"
| "times_100 NaN = NaN"

subsection \<open>Errors that reach the error middleware\<close>





subsection \<open>Create budget (\<^verbatim>\<open>router.post('/')\<close>)\<close>














subsection \<open>Budget list and budget detail (\<^verbatim>\<open>router.get('/')\<close>, \<^verbatim>\<open>router.get('/:id')\<close>)\<close>

text \<open>
  The \<^verbatim>\<open>total_spent\<close> subquery of both handlers:
  \<^verbatim>\<open>SELECT SUM(ABS(t.amount)) FROM transactions t JOIN accounts a ON t.account_id = a.account_id
  WHERE a.user_id = b.user_id AND t.transaction_date BETWEEN b.start_date AND b.end_date
  AND t.transaction_type = 'EXPENSE'\<close>, with \<^verbatim>\<open>COALESCE(.., 0)\<close> around it.
\<close>

definition total_spent :: "db \<Rightarrow> budget \<Rightarrow> rat" where
  "total_spent d b =
     sum_list [\<bar>txn_amount t\<bar>.
                 t \<leftarrow> transactions d, a \<leftarrow> accounts d,
                 txn_account_id t = account_id a,
                 account_user_id a = budget_user_id b,
                 start_date b \<le> transaction_date t \<and> transaction_date t \<le> end_date b,
                 transaction_type t = ''EXPENSE'']"

record budget_list_query =
  q_active :: "string option"
  q_startDate :: "int option"
  q_endDate :: "int option"

record budget_summary =
  bs_id :: nat
  bs_name :: string
  bs_startDate :: int
  bs_endDate :: int
  bs_totalLimit :: rat
  bs_totalSpent :: rat
  bs_percentUsed :: js_number
  bs_isOverBudget :: bool
  bs_isActive :: bool
  bs_remainingAmount :: rat
  bs_createdAt :: int
  bs_updatedAt :: int

text \<open>
  The list: the caller's budgets with \<^verbatim>\<open>is_active = true\<close>, narrowed by the query
  parameters, newest first; \<open>today\<close> is \<^verbatim>\<open>CURRENT_DATE\<close>.
\<close>

definition budget_list_rows :: "int \<Rightarrow> nat \<Rightarrow> budget_list_query \<Rightarrow> db \<Rightarrow> budget list" where
  "budget_list_rows today userId q d =
     sort_key (\<lambda>b. - created_date b)
       (filter (\<lambda>b. budget_user_id b = userId \<and> budget_is_active b
                  \<and> (if q_active q = Some ''true''
                        then today \<le> end_date b \<and> start_date b \<le> today
                      else if q_active q = Some ''false''
                        then end_date b < today \<or> today < start_date b
                      else True)
                  \<and> (case q_startDate q of None \<Rightarrow> True | Some s \<Rightarrow> s \<le> start_date b)
                  \<and> (case q_endDate q of None \<Rightarrow> True | Some e \<Rightarrow> end_date b \<le> e))
          (budgets d))"

definition budget_list :: "int \<Rightarrow> nat \<Rightarrow> budget_list_query \<Rightarrow> db \<Rightarrow> budget_summary list" where
  "budget_list today userId q d =
     map (\<lambda>b. \<lparr> bs_id = budget_id b, bs_name = budget_name b,
                bs_startDate = start_date b, bs_endDate = end_date b,
                bs_totalLimit = total_budget b,
                bs_totalSpent = total_spent d b,
                bs_percentUsed =
                  (if 0 < total_budget b
                   then times_100 (js_divide (total_spent d b) (total_budget b))
                   else Finite 0),
                bs_isOverBudget = (total_budget b < total_spent d b),
                bs_isActive = (today \<le> end_date b \<and> start_date b \<le> today),
                bs_remainingAmount = total_budget b - total_spent d b,
                bs_createdAt = created_date b, bs_updatedAt = created_date b \<rparr>)
       (budget_list_rows today userId q d)"

text \<open>
  The category query of the detail handler: the budget's allocations joined with their
  categories, left-joined with the caller's \<^verbatim>\<open>EXPENSE\<close> transactions of the category
  inside the budget window, grouped by
  \<^verbatim>\<open>bc.category_id, bc.allocated_amount, c.category_name, c.category_type\<close>, with
  \<^verbatim>\<open>COALESCE(SUM(t.amount), 0)\<close> as \<^verbatim>\<open>spent_amount\<close>. A group is one key of
  the joined rows; its sum runs over every joined row with this key.
\<close>

definition category_transactions :: "db \<Rightarrow> nat \<Rightarrow> int \<Rightarrow> int \<Rightarrow> category \<Rightarrow> txn list" where
  "category_transactions d userId fromDate toDate c =
     filter (\<lambda>t. category_id c = txn_category_id t
                \<and> transaction_type t = ''EXPENSE''
                \<and> fromDate \<le> transaction_date t \<and> transaction_date t \<le> toDate
                \<and> txn_account_id t
                    \<in> set (map account_id (filter (\<lambda>a. account_user_id a = userId) (accounts d))))
       (transactions d)"

definition budget_category_join :: "db \<Rightarrow> nat \<Rightarrow> (budget_category \<times> category) list" where
  "budget_category_join d budgetId =
     [(bc, c). bc \<leftarrow> budget_categories d, c \<leftarrow> categories d,
               bc_category_id bc = category_id c, bc_budget_id bc = budgetId]"

record category_row =
  cr_category_id :: nat
  cr_allocated_amount :: rat
  cr_category_name :: string
  cr_category_type :: string
  cr_spent_amount :: rat

definition detail_key :: "budget_category \<times> category \<Rightarrow> nat \<times> rat \<times> string \<times> string" where
  "detail_key p = (bc_category_id (fst p), allocated_amount (fst p),
                   category_name (snd p), category_type (snd p))"

definition categoriesResult :: "db \<Rightarrow> nat \<Rightarrow> int \<Rightarrow> int \<Rightarrow> nat \<Rightarrow> category_row list" where
  "categoriesResult d userId fromDate toDate budgetId =
     sort_key cr_category_name
       (map (\<lambda>k. \<lparr> cr_category_id = fst k, cr_allocated_amount = fst (snd k),
                   cr_category_name = fst (snd (snd k)), cr_category_type = snd (snd (snd k)),
                   cr_spent_amount =
                     sum_list [txn_amount t.
                                p \<leftarrow> budget_category_join d budgetId, detail_key p = k,
                                t \<leftarrow> category_transactions d userId fromDate toDate (snd p)] \<rparr>)
          (remdups (map detail_key (budget_category_join d budgetId))))"

record category_detail =
  cd_id :: nat
  cd_name :: string
  cd_type :: string
  cd_allocatedAmount :: rat
  cd_spentAmount :: rat
  cd_remainingAmount :: rat
  cd_utilizationPercentage :: js_number

record budget_detail =
  bd_id :: nat
  bd_name :: string
  bd_startDate :: int
  bd_endDate :: int
  bd_totalLimit :: rat
  bd_totalSpent :: rat
  bd_remainingAmount :: js_number
  bd_utilizationPercentage :: js_number
  bd_isActive :: bool
  bd_categories :: "category_detail list"

text \<open>
  The detail handler; \<open>None\<close> is the 404 answer. The budget query selects neither
  \<^verbatim>\<open>remaining_amount\<close> nor \<^verbatim>\<open>utilization_percentage\<close>, so the handler applies
  \<^verbatim>\<open>parseFloat\<close> to \<^verbatim>\<open>undefined\<close> for both fields of the budget: \<^verbatim>\<open>NaN\<close>.
\<close>

definition budget_detail_route :: "nat \<Rightarrow> nat \<Rightarrow> db \<Rightarrow> budget_detail option" where
  "budget_detail_route userId budgetId d =
     (case filter (\<lambda>b. budget_user_id b = userId \<and> budget_id b = budgetId \<and> budget_is_active b)
             (budgets d) of
        [] \<Rightarrow> None
      | b # others \<Rightarrow>
          Some \<lparr> bd_id = budget_id b, bd_name = budget_name b,
                 bd_startDate = start_date b, bd_endDate = end_date b,
                 bd_totalLimit = total_budget b,
                 bd_totalSpent = total_spent d b,
                 bd_remainingAmount = NaN,
                 bd_utilizationPercentage = NaN,
                 bd_isActive = budget_is_active b,
                 bd_categories =
                   map (\<lambda>category.
                          \<lparr> cd_id = cr_category_id category,
                            cd_name = cr_category_name category,
                            cd_type = cr_category_type category,
                            cd_allocatedAmount = cr_allocated_amount category,
                            cd_spentAmount = cr_spent_amount category,
                            cd_remainingAmount =
                              cr_allocated_amount category - cr_spent_amount category,
                            cd_utilizationPercentage =
                              times_100 (js_divide (cr_spent_amount category)
                                           (cr_allocated_amount category)) \<rparr>)
                     (categoriesResult d userId (start_date b) (end_date b) budgetId) \<rparr>)"

subsection \<open>Budget analytics (\<^verbatim>\<open>router.get('/:id/analytics')\<close>)\<close>

text \<open>
  The daily trend: the caller's \<^verbatim>\<open>EXPENSE\<close> transactions joined through the budget's
  allocations, inside the budget window, grouped by day, in the order of the days.
\<close>

definition trend_join :: "db \<Rightarrow> nat \<Rightarrow> nat \<Rightarrow> txn list" where
  "trend_join d userId budgetId =
     [t. t \<leftarrow> transactions d, a \<leftarrow> accounts d, txn_account_id t = account_id a,
         bc \<leftarrow> budget_categories d, txn_category_id t = bc_category_id bc,
         b \<leftarrow> budgets d, bc_budget_id bc = budget_id b,
         account_user_id a = userId, budget_id b = budgetId,
         transaction_type t = ''EXPENSE'',
         start_date b \<le> transaction_date t \<and> transaction_date t \<le> end_date b]"

record trend_point =
  tp_date :: int
  tp_amount :: rat
  tp_transactionCount :: nat

definition spendingTrend :: "db \<Rightarrow> nat \<Rightarrow> nat \<Rightarrow> trend_point list" where
  "spendingTrend d userId budgetId =
     map (\<lambda>day. \<lparr> tp_date = day,
                  tp_amount =
                    sum_list [txn_amount t. t \<leftarrow> trend_join d userId budgetId,
                                            transaction_date t = day],
                  tp_transactionCount =
                    length [t. t \<leftarrow> trend_join d userId budgetId, transaction_date t = day] \<rparr>)
       (sort (remdups (map transaction_date (trend_join d userId budgetId))))"

text \<open>
  The distribution: the allocations of the budget joined with their categories and
  with the budget, left-joined with the caller's \<^verbatim>\<open>EXPENSE\<close> transactions of the
  category inside the window, grouped by \<^verbatim>\<open>c.category_name, bc.allocated_amount\<close>,
  largest \<^verbatim>\<open>spent_amount\<close> first.
\<close>

definition distribution_join :: "db \<Rightarrow> nat \<Rightarrow> (budget_category \<times> category \<times> budget) list" where
  "distribution_join d budgetId =
     [(bc, c, b). bc \<leftarrow> budget_categories d, c \<leftarrow> categories d,
                  bc_category_id bc = category_id c,
                  b \<leftarrow> budgets d, bc_budget_id bc = budget_id b,
                  bc_budget_id bc = budgetId]"

definition distribution_key :: "budget_category \<times> category \<times> budget \<Rightarrow> string \<times> rat" where
  "distribution_key p = (category_name (fst (snd p)), allocated_amount (fst p))"

definition distribution_transactions ::
  "db \<Rightarrow> nat \<Rightarrow> nat \<Rightarrow> string \<times> rat \<Rightarrow> txn list" where
  "distribution_transactions d userId budgetId k =
     [t. p \<leftarrow> distribution_join d budgetId, distribution_key p = k,
         t \<leftarrow> category_transactions d userId (start_date (snd (snd p)))
                (end_date (snd (snd p))) (fst (snd p))]"

record distribution_row =
  dr_categoryName :: string
  dr_allocatedAmount :: rat
  dr_spentAmount :: rat
  dr_transactionCount :: nat
  dr_utilizationPercentage :: js_number

definition categoryDistribution :: "db \<Rightarrow> nat \<Rightarrow> nat \<Rightarrow> distribution_row list" where
  "categoryDistribution d userId budgetId =
     map (\<lambda>k. \<lparr> dr_categoryName = fst k, dr_allocatedAmount = snd k,
                 dr_spentAmount =
                   sum_list (map txn_amount (distribution_transactions d userId budgetId k)),
                 dr_transactionCount = length (distribution_transactions d userId budgetId k),
                 dr_utilizationPercentage =
                   times_100
                     (js_divide
                        (sum_list (map txn_amount (distribution_transactions d userId budgetId k)))
                        (snd k)) \<rparr>)
       (sort_key
          (\<lambda>k. - sum_list (map txn_amount (distribution_transactions d userId budgetId k)))
          (remdups (map distribution_key (distribution_join d budgetId))))"

text \<open>The analytics handler; \<open>None\<close> is the 404 answer of the ownership check.\<close>

definition budget_analytics_route ::
  "nat \<Rightarrow> nat \<Rightarrow> db \<Rightarrow> (trend_point list \<times> distribution_row list) option" where
  "budget_analytics_route userId budgetId d =
     (if filter (\<lambda>b. budget_user_id b = userId \<and> budget_id b = budgetId) (budgets d) = []
      then None
      else Some (spendingTrend d userId budgetId, categoryDistribution d userId budgetId))"


section \<open>Reports (routes/reports.js)\<close>

subsection \<open>The caller of a report\<close>



subsection \<open>Financial summary (\<^verbatim>\<open>router.get('/summary')\<close>)\<close>

record summary_data =
  totalBalance :: js_number
  totalIncome :: js_number
  totalExpenses :: js_number
  netWorth :: js_number
  accountsCount :: nat
  transactionsCount :: nat
  activeBudgetsCount :: nat
  activeGoalsCount :: nat






subsection \<open>Financial health (\<^verbatim>\<open>router.get('/financial-health')\<close>)\<close>

text \<open>
  The row of the metrics query: two sums and a count over the accounts, two sums over
  the transactions of the last 30 days, the number of budgets that run today.
\<close>

record metrics =
  total_balance_m :: rat
  account_count :: nat
  monthly_income :: rat
  monthly_expenses :: rat
  active_budgets :: nat

record health_response =
  healthScore :: nat
  healthLevel :: string
  hr_totalBalance :: js_number
  hr_monthlyIncome :: js_number
  hr_monthlyExpenses :: js_number
  savingsRate :: js_number
  hr_accountCount :: nat
  hr_activeBudgets :: nat
  insights :: "(string \<times> string) list"

text \<open>
  The four blocks of the handler, each adding to \<^verbatim>\<open>healthScore\<close> and pushing one
  insight (the ratio block only when the monthly income is positive). The amounts are
  \<^verbatim>\<open>parseFloat\<close> of the columns, \<^verbatim>\<open>expenseRatio\<close> is a quotient of two doubles, and
  \<^verbatim>\<open>0.5\<close>, \<^verbatim>\<open>0.7\<close> and \<^verbatim>\<open>0.9\<close> are the doubles nearest to these decimals.
\<close>

definition balance_block :: "metrics \<Rightarrow> nat \<times> (string \<times> string) list \<Rightarrow> nat \<times> (string \<times> string) list" where
  "balance_block m st =
     (let totalBalance = parseFloat (total_balance_m m)
      in if number_less (Finite 10000) totalBalance
           then (fst st + 30, snd st @ [(''positive'', ''Excellent savings balance'')])
         else if number_less (Finite 5000) totalBalance
           then (fst st + 20, snd st @ [(''neutral'', ''Good savings balance'')])
         else if number_less (Finite 1000) totalBalance
           then (fst st + 10, snd st @ [(''warning'', ''Consider increasing your savings'')])
         else (fst st, snd st @ [(''negative'',
                 ''Low savings balance - focus on building emergency fund'')]))"

definition ratio_block :: "metrics \<Rightarrow> nat \<times> (string \<times> string) list \<Rightarrow> nat \<times> (string \<times> string) list" where
  "ratio_block m st =
     (let monthlyIncome = parseFloat (monthly_income m);
          monthlyExpenses = parseFloat (monthly_expenses m)
      in if number_less (Finite 0) monthlyIncome
         then (let expenseRatio = number_divide monthlyExpenses monthlyIncome
               in if number_less expenseRatio (round_to_double (5 / 10))
                    then (fst st + 30, snd st @ [(''positive'', ''Excellent spending discipline'')])
                  else if number_less expenseRatio (round_to_double (7 / 10))
                    then (fst st + 20, snd st @ [(''positive'', ''Good spending habits'')])
                  else if number_less expenseRatio (round_to_double (9 / 10))
                    then (fst st + 10, snd st @ [(''warning'', ''Monitor your spending carefully'')])
                  else (fst st, snd st @ [(''negative'',
                          ''Expenses are too high compared to income'')]))
         else st)"

definition budget_block :: "metrics \<Rightarrow> nat \<times> (string \<times> string) list \<Rightarrow> nat \<times> (string \<times> string) list" where
  "budget_block m st =
     (let activeBudgets = active_budgets m
      in if 0 < activeBudgets
           then (fst st + 20, snd st @ [(''positive'', ''Great job maintaining active budgets'')])
         else (fst st, snd st @ [(''warning'', ''Consider creating budgets to track spending'')]))"

definition account_block :: "metrics \<Rightarrow> nat \<times> (string \<times> string) list \<Rightarrow> nat \<times> (string \<times> string) list" where
  "account_block m st =
     (let accountCount = account_count m
      in if 3 \<le> accountCount
           then (fst st + 20, snd st @ [(''positive'', ''Good account diversification'')])
         else if 2 \<le> accountCount
           then (fst st + 10, snd st @ [(''neutral'', ''Consider adding more account types'')])
         else (fst st, snd st @ [(''warning'', ''Consider diversifying your accounts'')]))"

definition health_level :: "nat \<Rightarrow> string" where
  "health_level score =
     (if 80 \<le> score then ''Excellent''
      else if 60 \<le> score then ''Good''
      else if 40 \<le> score then ''Fair''
      else ''Needs Improvement'')"

definition financial_health :: "metrics \<Rightarrow> health_response" where
  "financial_health m =
     (let st = account_block m (budget_block m (ratio_block m (balance_block m (0, []))));
          monthlyIncome = parseFloat (monthly_income m);
          monthlyExpenses = parseFloat (monthly_expenses m)
      in \<lparr> healthScore = fst st,
           healthLevel = health_level (fst st),
           hr_totalBalance = parseFloat (total_balance_m m),
           hr_monthlyIncome = monthlyIncome,
           hr_monthlyExpenses = monthlyExpenses,
           savingsRate =
             (if number_less (Finite 0) monthlyIncome
              then number_multiply
                     (number_divide (number_subtract monthlyIncome monthlyExpenses) monthlyIncome)
                     (Finite 100)
              else Finite 0),
           hr_accountCount = account_count m,
           hr_activeBudgets = active_budgets m,
           insights = snd st \<rparr>)"


text \<open>
  The bands of the claim, one function for each: balance, expense/income ratio
  (scored only with a positive monthly income), active budgets, number of accounts.
  \<open>balance_band\<close> and \<open>ratio_band\<close> read the thresholds on doubles, the ratio being
  the rounded quotient; \<open>spec_balance_band\<close> and \<open>spec_ratio_band\<close> read them on the
  decimals themselves, and \<open>spec_score\<close> is the sum of the bands read that way.
\<close>

definition balance_band :: "js_number \<Rightarrow> nat" where
  "balance_band balance =
     (if number_less (Finite 10000) balance then 30
      else if number_less (Finite 5000) balance then 20
      else if number_less (Finite 1000) balance then 10 else 0)"

definition ratio_band :: "js_number \<Rightarrow> js_number \<Rightarrow> nat" where
  "ratio_band income expenses =
     (if number_less (Finite 0) income
      then (if number_less (number_divide expenses income) (round_to_double (5 / 10)) then 30
            else if number_less (number_divide expenses income) (round_to_double (7 / 10)) then 20
            else if number_less (number_divide expenses income) (round_to_double (9 / 10)) then 10
            else 0)
      else 0)"

definition spec_balance_band :: "rat \<Rightarrow> nat" where
  "spec_balance_band balance =
     (if 10000 < balance then 30 else if 5000 < balance then 20
      else if 1000 < balance then 10 else 0)"

definition spec_ratio_band :: "rat \<Rightarrow> rat \<Rightarrow> nat" where
  "spec_ratio_band income expenses =
     (if 0 < income
      then (if expenses / income < 5 / 10 then 30 else if expenses / income < 7 / 10 then 20
            else if expenses / income < 9 / 10 then 10 else 0)
      else 0)"

definition spec_budget_band :: "nat \<Rightarrow> nat" where
  "spec_budget_band budgets_n = (if 1 \<le> budgets_n then 20 else 0)"

definition spec_account_band :: "nat \<Rightarrow> nat" where
  "spec_account_band accounts_n = (if 3 \<le> accounts_n then 20 else if 2 \<le> accounts_n then 10 else 0)"

definition spec_level :: "nat \<Rightarrow> string" where
  "spec_level score =
     (if 80 \<le> score then ''Excellent'' else if 60 \<le> score then ''Good''
      else if 40 \<le> score then ''Fair'' else ''Needs Improvement'')"

definition spec_score :: "metrics \<Rightarrow> nat" where
  "spec_score m =
     spec_balance_band (total_balance_m m)
     + spec_ratio_band (monthly_income m) (monthly_expenses m)
     + spec_budget_band (active_budgets m) + spec_account_band (account_count m)"

section \<open>Receipts (\<^verbatim>\<open>router.post('/:receiptId/create-transaction')\<close>)\<close>












section \<open>What a failing operation answers\<close>




text \<open>
  Where the error is thrown: by a statement inside the \<^verbatim>\<open>try\<close> block, by one before
  it (\<^verbatim>\<open>pool.connect()\<close> stands before the \<^verbatim>\<open>try\<close> in the transaction, transfer
  and budget handlers), or by a statement of the \<^verbatim>\<open>catch\<close> block itself (the
  \<^verbatim>\<open>ROLLBACK\<close> of create transfer). An error that is not thrown inside a \<^verbatim>\<open>try\<close>
  reaches \<^verbatim>\<open>errorHandler\<close>.
\<close>

datatype thrown_at = BeforeTry | InsideTry | InsideCatch



section \<open>Scenario data\<close>

text \<open>
  The store of the specification's scenarios: account 1 of user 1 holds 100.00; user 2
  owns account 5 (balance 20.00, the older one, not active) and account 7 (active).
  \<open>scenario_request\<close> is a JSON body with numbers as ids, \<open>form_request\<close> the same
  fields sent as strings.
\<close>

definition account_1 :: account where
  "account_1 = \<lparr> account_id = 1, account_user_id = 1, current_balance = 100, is_active = True \<rparr>"

definition account_5 :: account where
  "account_5 = \<lparr> account_id = 5, account_user_id = 2, current_balance = 20, is_active = False \<rparr>"

definition account_7 :: account where
  "account_7 = \<lparr> account_id = 7, account_user_id = 2, current_balance = 0, is_active = True \<rparr>"

definition scenario_row :: "nat \<Rightarrow> nat \<Rightarrow> rat \<Rightarrow> rat \<Rightarrow> transfer" where
  "scenario_row src dst amt fee =
     \<lparr> from_account_id = src, to_account_id = dst, transfer_amount = amt,
       transfer_date = ''2024-01-31'', transfer_description = ''rent'', fee_amount = fee,
       transfer_notes = None \<rparr>"

definition scenario_db :: db where
  "scenario_db =
     \<lparr> accounts =
         [\<lparr> account_id = 1, account_user_id = 1, current_balance = 100, is_active = True \<rparr>,
          \<lparr> account_id = 5, account_user_id = 2, current_balance = 20, is_active = False \<rparr>,
          \<lparr> account_id = 7, account_user_id = 2, current_balance = 0, is_active = True \<rparr>],
       transfers = [], transactions = [], categories = [], budgets = [],
       budget_categories = [], receipts = [] \<rparr>"

definition scenario_request :: "nat \<Rightarrow> nat \<Rightarrow> rat \<Rightarrow> rat \<Rightarrow> transfer_request" where
  "scenario_request src rcpt amt fee =
     \<lparr> fromAccountId = IdNumber src, toUserId = IdNumber rcpt, amount = amt,
       description = ''rent'', transferDate = ''2024-01-31'', req_notes = None,
       feeAmount = fee \<rparr>"

definition form_request :: "nat \<Rightarrow> nat \<Rightarrow> rat \<Rightarrow> rat \<Rightarrow> transfer_request" where
  "form_request src rcpt amt fee =
     \<lparr> fromAccountId = IdString src, toUserId = IdString rcpt, amount = amt,
       description = ''rent'', transferDate = ''2024-01-31'', req_notes = None,
       feeAmount = fee \<rparr>"

text \<open>A store where account 1 of user 1 holds 0.30 and account 5 of user 2 is empty.\<close>

definition cents_db :: db where
  "cents_db =
     \<lparr> accounts =
         [\<lparr> account_id = 1, account_user_id = 1, current_balance = 3 / 10, is_active = True \<rparr>,
          \<lparr> account_id = 5, account_user_id = 2, current_balance = 0, is_active = True \<rparr>],
       transfers = [], transactions = [], categories = [], budgets = [],
       budget_categories = [], receipts = [] \<rparr>"






text \<open>
  A store with one budget of user 1 (window 100 to 130, limit 500.00) that allocates
  the given amount to category 1 only, and two expenses of user 1 inside the window:
  50.00 in category 1 and 30.00 in category 2. The detail response for it, with the
  given total, and a further expense in category 2.
\<close>

definition spending_db :: "rat \<Rightarrow> db" where
  "spending_db allocated =
     \<lparr> accounts = [\<lparr> account_id = 1, account_user_id = 1, current_balance = 100, is_active = True \<rparr>],
       transfers = [],
       transactions =
         [\<lparr> txn_user_id = 1, txn_account_id = 1, txn_category_id = 1, txn_amount = 50,
            txn_description = ''lunch'', transaction_date = 110, transaction_type = ''EXPENSE'',
            txn_receipt_id = None \<rparr>,
          \<lparr> txn_user_id = 1, txn_account_id = 1, txn_category_id = 2, txn_amount = 30,
            txn_description = ''cinema'', transaction_date = 115, transaction_type = ''EXPENSE'',
            txn_receipt_id = None \<rparr>],
       categories = [\<lparr> category_id = 1, category_name = ''Food'', category_type = ''expense'' \<rparr>,
                     \<lparr> category_id = 2, category_name = ''Fun'', category_type = ''expense'' \<rparr>],
       budgets = [\<lparr> budget_id = 1, budget_user_id = 1, budget_name = ''May'', start_date = 100,
                    end_date = 130, total_budget = 500, created_date = 90,
                    budget_is_active = True \<rparr>],
       budget_categories = [\<lparr> bc_budget_id = 1, bc_category_id = 1, allocated_amount = allocated \<rparr>],
       receipts = [] \<rparr>"



section \<open>Properties of create transfer\<close>

lemma select_recipient_account_min:
  assumes "select_recipient_account d uid = toAccount # rest"
  shows "toAccount \<in> set (accounts d) \<and> account_user_id toAccount = uid
         \<and> (\<forall>a\<in>set (accounts d). account_user_id a = uid \<longrightarrow> account_id toAccount \<le> account_id a)"
proof -
  let ?xs = "filter (\<lambda>a. account_user_id a = uid) (accounts d)"
  from assms obtain ys where srt: "sort_key account_id ?xs = toAccount # ys"
    by (cases "sort_key account_id ?xs") (auto simp: select_recipient_account_def)
  have "set (sort_key account_id ?xs) = set ?xs" by simp
  with srt have mem: "toAccount \<in> set ?xs" and sub: "set ?xs = insert toAccount (set ys)"
    by auto
  have "sorted (map account_id (sort_key account_id ?xs))" by (rule sorted_sort_key)
  with srt have "\<forall>z\<in>set ys. account_id toAccount \<le> account_id z" by simp
  with sub have "\<forall>a\<in>set ?xs. account_id toAccount \<le> account_id a" by auto
  with mem show ?thesis by auto
qed

lemma select_recipient_account_nonempty:
  assumes "a \<in> set (accounts d)" "account_user_id a = uid"
  shows "select_recipient_account d uid \<noteq> []"
proof -
  let ?xs = "filter (\<lambda>a. account_user_id a = uid) (accounts d)"
  from assms have "a \<in> set (sort_key account_id ?xs)" by simp
  then have ne: "sort_key account_id ?xs \<noteq> []" by force
  show ?thesis using ne
    by (cases "sort_key account_id ?xs") (simp_all add: select_recipient_account_def)
qed

lemma create_transfer_effect:
  "snd (create_transfer tr flt errors u req d) = d \<or>
   (\<exists>fromAccount fromRest toAccount toRest.
      select_account d (id_value (fromAccountId req)) = fromAccount # fromRest \<and>
      select_recipient_account d (id_value (toUserId req)) = toAccount # toRest \<and>
      snd (create_transfer tr flt errors u req d) =
        d \<lparr> transfers := transfers d @
               [\<lparr> from_account_id = id_value (fromAccountId req),
                  to_account_id = account_id toAccount,
                  transfer_amount = amount req, transfer_date = transferDate req,
                  transfer_description = description req, fee_amount = feeAmount req,
                  transfer_notes = req_notes req \<rparr>],
             accounts := tr \<lparr> from_account_id = id_value (fromAccountId req),
                  to_account_id = account_id toAccount,
                  transfer_amount = amount req, transfer_date = transferDate req,
                  transfer_description = description req, fee_amount = feeAmount req,
                  transfer_notes = req_notes req \<rparr> (accounts d) \<rparr>)"
  by (simp add: create_transfer_def Let_def split: list.splits)

lemma create_transfer_created:
  assumes "fst (create_transfer tr flt errors u req d) = TransferCreated t fb tb"
  shows "\<exists>toAccount toRest fromBalance r1 toBalance r2.
           select_recipient_account d (id_value (toUserId req)) = toAccount # toRest \<and>
           t = \<lparr> from_account_id = id_value (fromAccountId req),
                 to_account_id = account_id toAccount,
                 transfer_amount = amount req, transfer_date = transferDate req,
                 transfer_description = description req, fee_amount = feeAmount req,
                 transfer_notes = req_notes req \<rparr> \<and>
           snd (create_transfer tr flt errors u req d)
             = d \<lparr> transfers := transfers d @ [t], accounts := tr t (accounts d) \<rparr> \<and>
           select_account (snd (create_transfer tr flt errors u req d))
               (id_value (fromAccountId req))
             = fromBalance # r1 \<and>
           select_account (snd (create_transfer tr flt errors u req d)) (account_id toAccount)
             = toBalance # r2 \<and>
           fb = parseFloat (current_balance fromBalance)
           \<and> tb = parseFloat (current_balance toBalance)"
  using assms
  by (auto simp: create_transfer_def Let_def split: if_splits list.splits)

lemma distinct_filter_singleton:
  "distinct (map account_id rows) \<Longrightarrow> filter (\<lambda>a. account_id a = k) rows = a # rest \<Longrightarrow> rest = []"
proof (induction rows)
  case Nil
  then show ?case by simp
next
  case (Cons r rows)
  show ?case
  proof (cases "account_id r = k")
    case True
    with Cons.prems have "filter (\<lambda>a. account_id a = k) rows = []"
      by (force simp: filter_empty_conv image_iff)
    with Cons.prems True show ?thesis by simp
  next
    case False
    with Cons show ?thesis by simp
  qed
qed

lemma select_account_singleton:
  assumes pk: "distinct (map account_id (accounts d))" and a: "a \<in> set (accounts d)"
  shows "select_account d (account_id a) = [a]"
proof -
  from a have "a \<in> set (select_account d (account_id a))"
    by (simp add: select_account_def)
  then obtain b rest where sel: "select_account d (account_id a) = b # rest"
    by (cases "select_account d (account_id a)") auto
  then have "rest = []"
    using distinct_filter_singleton [OF pk] by (simp add: select_account_def)
  with sel \<open>a \<in> set (select_account d (account_id a))\<close> show ?thesis by simp
qed

lemma filter_adjustBalance:
  "filter (\<lambda>a. account_id a = k) (adjustBalance j x rows)
   = (if k = j
      then map (\<lambda>a. a \<lparr> current_balance := current_balance a + x \<rparr>)
             (filter (\<lambda>a. account_id a = k) rows)
      else filter (\<lambda>a. account_id a = k) rows)"
proof (cases "k = j")
  case True
  then show ?thesis by (induction rows) (simp_all add: adjustBalance_def)
next
  case False
  then show ?thesis by (induction rows) (simp_all add: adjustBalance_def)
qed

lemma account_ids_adjustBalance:
  "map account_id (adjustBalance j x rows) = map account_id rows"
  by (induction rows) (simp_all add: adjustBalance_def)

lemma account_ids_balance_trigger:
  "map account_id (balance_trigger t rows) = map account_id rows"
  by (simp add: balance_trigger_def account_ids_adjustBalance)

lemma sum_adjustBalance:
  "distinct (map account_id rows) \<Longrightarrow> filter (\<lambda>a. account_id a = j) rows = a # rest \<Longrightarrow>
   sum_list (map current_balance (adjustBalance j x rows))
   = sum_list (map current_balance rows) + x"
proof (induction rows)
  case Nil
  then show ?case by simp
next
  case (Cons r rows)
  show ?case
  proof (cases "account_id r = j")
    case True
    have "\<forall>b\<in>set rows. account_id b \<noteq> j"
      using Cons.prems(1) True by (auto simp: image_iff)
    then have "adjustBalance j x rows = rows"
      by (simp add: adjustBalance_def map_idI)
    then have "adjustBalance j x (r # rows)
               = r \<lparr> current_balance := current_balance r + x \<rparr> # rows"
      using True by (simp add: adjustBalance_def)
    then show ?thesis by simp
  next
    case False
    with Cons.prems have "filter (\<lambda>a. account_id a = j) rows = a # rest" by simp
    with Cons have "sum_list (map current_balance (adjustBalance j x rows))
                    = sum_list (map current_balance rows) + x" by simp
    moreover have "adjustBalance j x (r # rows) = r # adjustBalance j x rows"
      using False by (simp add: adjustBalance_def)
    ultimately show ?thesis by simp
  qed
qed

lemma sum_balance_trigger:
  assumes pk: "distinct (map account_id rows)"
      and src: "filter (\<lambda>a. account_id a = from_account_id t) rows = src # r1"
      and dst: "filter (\<lambda>a. account_id a = to_account_id t) rows = dst # r2"
  shows "sum_list (map current_balance (balance_trigger t rows))
         = sum_list (map current_balance rows) - fee_amount t"
proof -
  let ?debited = "adjustBalance (from_account_id t) (- (transfer_amount t + fee_amount t)) rows"
  have pk': "distinct (map account_id ?debited)"
    using pk by (simp add: account_ids_adjustBalance)
  have "filter (\<lambda>a. account_id a = to_account_id t) ?debited \<noteq> []"
    using src dst by (simp add: filter_adjustBalance)
  then obtain dst' r2' where dst': "filter (\<lambda>a. account_id a = to_account_id t) ?debited = dst' # r2'"
    by (cases "filter (\<lambda>a. account_id a = to_account_id t) ?debited") auto
  have "sum_list (map current_balance (balance_trigger t rows))
        = sum_list (map current_balance ?debited) + transfer_amount t"
    unfolding balance_trigger_def by (rule sum_adjustBalance [OF pk' dst'])
  also have "sum_list (map current_balance ?debited)
        = sum_list (map current_balance rows) + (- (transfer_amount t + fee_amount t))"
    by (rule sum_adjustBalance [OF pk src])
  finally show ?thesis by simp
qed

lemma create_transfer_step_invariant:
  assumes pk: "distinct (map account_id (accounts d))"
  shows "distinct (map account_id (accounts (snd (create_transfer balance_trigger flt errors u req d))))
         \<and> total_balance (snd (create_transfer balance_trigger flt errors u req d))
             + fees_collected (snd (create_transfer balance_trigger flt errors u req d))
           = total_balance d + fees_collected d"
proof (cases "snd (create_transfer balance_trigger flt errors u req d) = d")
  case True
  with pk show ?thesis by simp
next
  case False
  with create_transfer_effect [of balance_trigger flt errors u req d]
  obtain fromAccount fromRest toAccount toRest t where
    src: "select_account d (id_value (fromAccountId req)) = fromAccount # fromRest" and
    rcp: "select_recipient_account d (id_value (toUserId req)) = toAccount # toRest" and
    t: "t = \<lparr> from_account_id = id_value (fromAccountId req),
                  to_account_id = account_id toAccount,
                  transfer_amount = amount req, transfer_date = transferDate req,
                  transfer_description = description req, fee_amount = feeAmount req,
                  transfer_notes = req_notes req \<rparr>" and
    d': "snd (create_transfer balance_trigger flt errors u req d)
           = d \<lparr> transfers := transfers d @ [t], accounts := balance_trigger t (accounts d) \<rparr>"
    by auto
  from select_recipient_account_min [OF rcp] have "toAccount \<in> set (accounts d)" by simp
  then have "filter (\<lambda>a. account_id a = to_account_id t) (accounts d) \<noteq> []"
    using t by (auto simp: filter_empty_conv)
  then obtain dst r2 where dst: "filter (\<lambda>a. account_id a = to_account_id t) (accounts d) = dst # r2"
    by (cases "filter (\<lambda>a. account_id a = to_account_id t) (accounts d)") auto
  from src t have src': "filter (\<lambda>a. account_id a = from_account_id t) (accounts d) = fromAccount # fromRest"
    by (simp add: select_account_def)
  have "sum_list (map current_balance (balance_trigger t (accounts d)))
        = sum_list (map current_balance (accounts d)) - fee_amount t"
    by (rule sum_balance_trigger [OF pk src' dst])
  with d' pk show ?thesis
    by (simp add: total_balance_def fees_collected_def account_ids_balance_trigger)
qed

text \<open>
  With the trigger of the specification and unique account ids, the sum of all
  balances after any sequence of create-transfer requests is the sum before minus the
  fees of the transfers recorded in between, whatever the ids and their form.
\<close>

lemma run_transfers_invariant:
  "distinct (map account_id (accounts d)) \<Longrightarrow>
   total_balance (run_transfers balance_trigger reqs d)
     + fees_collected (run_transfers balance_trigger reqs d)
   = total_balance d + fees_collected d"
proof (induction reqs arbitrary: d)
  case Nil
  then show ?case by simp
next
  case (Cons x reqs)
  obtain flt u req where x: "x = (flt, u, req)" by (cases x) auto
  from create_transfer_step_invariant [OF Cons.prems, of flt "[]" u req] Cons.IH
  show ?case by (simp add: x)
qed

text \<open>
  The doubles of the scenarios. The amounts of the first group are integers below
  \<open>2 ^ 53\<close>, which are doubles; 0.1, 0.2 and 0.3 are not.
\<close>

lemma double_values:
  "round_to_double 0 = Finite 0"
  "round_to_double 5 = Finite 5"
  "round_to_double 10 = Finite 10"
  "round_to_double 20 = Finite 20"
  "round_to_double 35 = Finite 35"
  "round_to_double 60 = Finite 60"
  "round_to_double 65 = Finite 65"
  "round_to_double 80 = Finite 80"
  "round_to_double 95 = Finite 95"
  "round_to_double 96 = Finite 96"
  "round_to_double 100 = Finite 100"
  "round_to_double 101 = Finite 101"
  by code_simp+

lemma cents_values:
  "number_add (parseFloat (1 / 10)) (parseFloat (1 / 5))
     = Finite (1351079888211149 / 4503599627370496)"
  "number_less (round_to_double (3 / 10)) (Finite (1351079888211149 / 4503599627370496))"
  by code_simp+

lemmas scenario_simps =
  create_transfer_def scenario_request_def form_request_def scenario_db_def
  select_account_def select_recipient_account_def balance_trigger_def adjustBalance_def
  strict_equal_def parseFloat_def double_values Let_def

lemmas scenario_data = account_1_def account_5_def account_7_def scenario_row_def

subsection \<open>C1: the insufficient-balance rejection\<close>

text \<open>
  Claim C1, as the handler has it. The balance check is made on doubles: the number of
  the balance column against the rounded sum \<^verbatim>\<open>parseFloat(amount) +
  parseFloat(feeAmount)\<close>. A request that passes validation and the guards before the
  check (the caller is not the recipient, the source account exists, the recipient has
  an account, the caller owns the source account), with no failing statement, is
  answered with the insufficient-balance error when the balance is less than that sum.
  Whichever guard answers, a request whose balance is less than the sum is rejected
  and the store is returned as it was: no transfer row, no balance changed. When the
  balance is not less than the sum, the insufficient-balance error is never the
  answer.
\<close>

theorem create_transfer_insufficient_balance:
  assumes src: "select_account d (id_value (fromAccountId req)) = fromAccount # fromRest"
  shows "(number_less (round_to_double (current_balance fromAccount))
            (number_add (parseFloat (amount req)) (parseFloat (feeAmount req))) \<longrightarrow>
            \<not> transfer_success (fst (create_transfer on_insert flt errors userId req d))
            \<and> snd (create_transfer on_insert flt errors userId req d) = d)
       \<and> (errors = [] \<and> flt = NoFault \<and> \<not> strict_equal userId (toUserId req)
            \<and> select_recipient_account d (id_value (toUserId req)) \<noteq> []
            \<and> account_user_id fromAccount = userId
            \<and> number_less (round_to_double (current_balance fromAccount))
                 (number_add (parseFloat (amount req)) (parseFloat (feeAmount req))) \<longrightarrow>
            fst (create_transfer on_insert flt errors userId req d)
              = InsufficientBalance (current_balance fromAccount)
                  (number_add (parseFloat (amount req)) (parseFloat (feeAmount req))))
       \<and> (\<not> number_less (round_to_double (current_balance fromAccount))
                 (number_add (parseFloat (amount req)) (parseFloat (feeAmount req))) \<longrightarrow>
            (\<forall>available required.
               fst (create_transfer on_insert flt errors userId req d)
                 \<noteq> InsufficientBalance available required))"
  using src by (simp add: create_transfer_def Let_def split: list.splits)

text \<open>
  The scenario of the specification: 96.00 + 5.00 from a balance of 100.00 is rejected
  and the store is unchanged; 95.00 + 5.00 is not rejected by the balance check.
\<close>

theorem create_transfer_insufficient_balance_witness:
  "select_account scenario_db (id_value (fromAccountId (scenario_request 1 2 96 5)))
     = [\<lparr> account_id = 1, account_user_id = 1, current_balance = 100, is_active = True \<rparr>]
   \<and> number_less (round_to_double 100) (number_add (parseFloat 96) (parseFloat 5))
   \<and> create_transfer balance_trigger NoFault [] 1 (scenario_request 1 2 96 5) scenario_db
       = (InsufficientBalance 100 (Finite 101), scenario_db)
   \<and> \<not> number_less (round_to_double 100) (number_add (parseFloat 95) (parseFloat 5))
   \<and> fst (create_transfer balance_trigger NoFault [] 1 (scenario_request 1 2 95 5) scenario_db)
       \<noteq> InsufficientBalance 100 (Finite 100)"
proof -
  let ?a = "\<lparr> account_id = 1, account_user_id = 1, current_balance = 100, is_active = True \<rparr>"
  have s1: "select_account scenario_db (id_value (fromAccountId (scenario_request 1 2 96 5))) = ?a # []"
    by (simp add: scenario_simps)
  have s2: "select_account scenario_db (id_value (fromAccountId (scenario_request 1 2 95 5))) = ?a # []"
    by (simp add: scenario_simps)
  have r: "select_recipient_account scenario_db (id_value (toUserId (scenario_request 1 2 96 5))) \<noteq> []"
    by (simp add: scenario_simps)
  have u: "\<not> strict_equal 1 (toUserId (scenario_request 1 2 96 5))"
    by (simp add: scenario_simps)
  have low: "number_less (round_to_double 100) (number_add (parseFloat 96) (parseFloat 5))"
    and sum: "number_add (parseFloat 96) (parseFloat 5) = Finite 101"
    and enough: "\<not> number_less (round_to_double 100) (number_add (parseFloat 95) (parseFloat 5))"
    by (simp_all add: parseFloat_def double_values)
  have f: "amount (scenario_request src rcpt amt fee) = amt"
    "feeAmount (scenario_request src rcpt amt fee) = fee" for src rcpt amt fee
    by (simp_all add: scenario_request_def)
  note t1 = create_transfer_insufficient_balance [OF s1, of balance_trigger NoFault "[]" 1]
  note t2 = create_transfer_insufficient_balance [OF s2, of balance_trigger NoFault "[]" 1]
  have "fst (create_transfer balance_trigger NoFault [] 1 (scenario_request 1 2 96 5) scenario_db)
          = InsufficientBalance 100 (Finite 101)"
    using t1 r u low sum by (simp add: f)
  moreover have "snd (create_transfer balance_trigger NoFault [] 1 (scenario_request 1 2 96 5) scenario_db)
          = scenario_db"
    using t1 low by (simp add: f)
  moreover have "fst (create_transfer balance_trigger NoFault [] 1 (scenario_request 1 2 95 5) scenario_db)
       \<noteq> InsufficientBalance 100 (Finite 100)"
    using t2 enough by (simp add: f)
  ultimately show ?thesis using s1 low enough by (simp add: prod_eq_iff)
qed

text \<open>
  The claim read on the decimals fails: user 1 asks for 0.10 + 0.20 from a balance of
  0.30, which is exactly \<open>amount + feeAmount\<close>. The double sum is
  0.30000000000000004, the double of the balance is 0.29999999999999998..., and the
  answer is the insufficient-balance error.
\<close>

theorem create_transfer_insufficient_balance_counterexample:
  "select_account cents_db (id_value (fromAccountId (scenario_request 1 2 (1 / 10) (1 / 5))))
     = [\<lparr> account_id = 1, account_user_id = 1, current_balance = 3 / 10, is_active = True \<rparr>]
   \<and> (3 / 10 :: rat) = amount (scenario_request 1 2 (1 / 10) (1 / 5))
                         + feeAmount (scenario_request 1 2 (1 / 10) (1 / 5))
   \<and> create_transfer balance_trigger NoFault [] 1 (scenario_request 1 2 (1 / 10) (1 / 5)) cents_db
       = (InsufficientBalance (3 / 10) (Finite (1351079888211149 / 4503599627370496)), cents_db)"
  by (simp add: create_transfer_def scenario_request_def cents_db_def select_account_def
      select_recipient_account_def strict_equal_def Let_def cents_values)

subsection \<open>C2: the destination account\<close>

text \<open>
  Claim C2, as the handler has it. The request names no destination account. For a
  recipient with at least one account the recipient look-up answers exactly one row:
  the recipient's account with the smallest \<^verbatim>\<open>account_id\<close> (the earliest created),
  whatever its \<^verbatim>\<open>is_active\<close> flag. A created transfer goes to that row: the row
  recorded in \<^verbatim>\<open>finance.transfers\<close> names it as \<^verbatim>\<open>to_account_id\<close>.
\<close>

theorem create_transfer_destination:
  "(\<forall>a\<in>set (accounts d). account_user_id a = id_value (toUserId req) \<longrightarrow>
      (\<exists>toAccount\<in>set (accounts d).
         select_recipient_account d (id_value (toUserId req)) = [toAccount]
         \<and> account_user_id toAccount = id_value (toUserId req)
         \<and> (\<forall>a'\<in>set (accounts d).
               account_user_id a' = id_value (toUserId req) \<longrightarrow> account_id toAccount \<le> account_id a')))
   \<and> (fst (create_transfer on_insert flt errors userId req d) = TransferCreated t fromBalance toBalance \<longrightarrow>
      (\<exists>toAccount\<in>set (accounts d).
         select_recipient_account d (id_value (toUserId req)) = [toAccount]
         \<and> to_account_id t = account_id toAccount
         \<and> transfers (snd (create_transfer on_insert flt errors userId req d)) = transfers d @ [t]))"
proof (intro conjI ballI impI)
  fix a
  assume "a \<in> set (accounts d)" "account_user_id a = id_value (toUserId req)"
  then have "select_recipient_account d (id_value (toUserId req)) \<noteq> []"
    by (rule select_recipient_account_nonempty)
  then obtain toAccount toRest where
    sel: "select_recipient_account d (id_value (toUserId req)) = toAccount # toRest"
    by (cases "select_recipient_account d (id_value (toUserId req))") auto
  have "length (select_recipient_account d (id_value (toUserId req))) \<le> 1"
    by (simp add: select_recipient_account_def)
  with sel have one: "select_recipient_account d (id_value (toUserId req)) = [toAccount]" by simp
  from select_recipient_account_min [OF sel] one
  show "\<exists>toAccount\<in>set (accounts d).
         select_recipient_account d (id_value (toUserId req)) = [toAccount]
         \<and> account_user_id toAccount = id_value (toUserId req)
         \<and> (\<forall>a'\<in>set (accounts d).
               account_user_id a' = id_value (toUserId req) \<longrightarrow> account_id toAccount \<le> account_id a')"
    by blast
next
  assume created:
    "fst (create_transfer on_insert flt errors userId req d) = TransferCreated t fromBalance toBalance"
  from create_transfer_created [OF created]
  obtain toAccount toRest where
    sel: "select_recipient_account d (id_value (toUserId req)) = toAccount # toRest" and
    t: "to_account_id t = account_id toAccount" and
    d': "snd (create_transfer on_insert flt errors userId req d)
           = d \<lparr> transfers := transfers d @ [t], accounts := on_insert t (accounts d) \<rparr>"
    by auto
  have "length (select_recipient_account d (id_value (toUserId req))) \<le> 1"
    by (simp add: select_recipient_account_def)
  with sel have one: "select_recipient_account d (id_value (toUserId req)) = [toAccount]" by simp
  from select_recipient_account_min [OF sel] have mem: "toAccount \<in> set (accounts d)" by simp
  have "transfers (snd (create_transfer on_insert flt errors userId req d)) = transfers d @ [t]"
    by (simp add: d')
  with one t mem
  show "\<exists>toAccount\<in>set (accounts d).
         select_recipient_account d (id_value (toUserId req)) = [toAccount]
         \<and> to_account_id t = account_id toAccount
         \<and> transfers (snd (create_transfer on_insert flt errors userId req d)) = transfers d @ [t]"
    by blast
qed

text \<open>
  The look-up does not filter on \<^verbatim>\<open>is_active\<close> (``any account for now''): user 2 has
  the active account 7, and the transfer is credited to the inactive account 5.
\<close>

theorem create_transfer_destination_counterexample:
  "fst (create_transfer balance_trigger NoFault [] 1 (scenario_request 1 2 60 5) scenario_db)
     = TransferCreated (scenario_row 1 5 60 5) (Finite 35) (Finite 80)
   \<and> select_account scenario_db 5 = [account_5] \<and> \<not> is_active account_5
   \<and> select_account scenario_db 7 = [account_7] \<and> is_active account_7
   \<and> account_user_id account_7 = id_value (toUserId (scenario_request 1 2 60 5))"
  by (simp add: scenario_simps scenario_data)

text \<open>The same request as an instance of the theorem.\<close>

theorem create_transfer_destination_witness:
  "account_7 \<in> set (accounts scenario_db)
   \<and> account_user_id account_7 = id_value (toUserId (scenario_request 1 2 60 5))
   \<and> fst (create_transfer balance_trigger NoFault [] 1 (scenario_request 1 2 60 5) scenario_db)
     = TransferCreated (scenario_row 1 5 60 5) (Finite 35) (Finite 80)
   \<and> select_recipient_account scenario_db 2 = [account_5]
   \<and> to_account_id (scenario_row 1 5 60 5) = account_id account_5
   \<and> account_id account_5 \<le> account_id account_7
   \<and> transfers (snd (create_transfer balance_trigger NoFault [] 1 (scenario_request 1 2 60 5)
         scenario_db)) = [scenario_row 1 5 60 5]"
proof -
  let ?req = "scenario_request 1 2 60 5"
  have created:
    "fst (create_transfer balance_trigger NoFault [] 1 ?req scenario_db)
       = TransferCreated (scenario_row 1 5 60 5) (Finite 35) (Finite 80)"
    by (simp add: scenario_simps scenario_data)
  have rcp: "select_recipient_account scenario_db 2 = [account_5]"
    by (simp add: scenario_simps scenario_data)
  have mem: "account_7 \<in> set (accounts scenario_db)"
    and own: "account_user_id account_7 = id_value (toUserId ?req)"
    and uid: "id_value (toUserId ?req) = 2"
    and none: "transfers scenario_db = []"
    by (simp_all add: scenario_db_def scenario_request_def account_7_def)
  note t = create_transfer_destination
             [of scenario_db ?req balance_trigger NoFault "[]" 1 "scenario_row 1 5 60 5" "Finite 35"
                "Finite 80"]
  from t mem own obtain first where
    first: "select_recipient_account scenario_db (id_value (toUserId ?req)) = [first]" and
    smallest: "\<forall>a'\<in>set (accounts scenario_db).
        account_user_id a' = id_value (toUserId ?req) \<longrightarrow> account_id first \<le> account_id a'"
    by blast
  from first [unfolded uid] rcp have "first = account_5" by simp
  with smallest mem own have least: "account_id account_5 \<le> account_id account_7"
    by blast
  from t created obtain toAccount where
    "select_recipient_account scenario_db (id_value (toUserId ?req)) = [toAccount]"
    "to_account_id (scenario_row 1 5 60 5) = account_id toAccount"
    "transfers (snd (create_transfer balance_trigger NoFault [] 1 ?req scenario_db))
       = transfers scenario_db @ [scenario_row 1 5 60 5]"
    by blast
  then have "select_recipient_account scenario_db 2 = [toAccount]"
    and dest': "to_account_id (scenario_row 1 5 60 5) = account_id toAccount"
    and rows: "transfers (snd (create_transfer balance_trigger NoFault [] 1 ?req scenario_db))
       = [scenario_row 1 5 60 5]"
    unfolding uid none by simp_all
  with rcp have dest: "to_account_id (scenario_row 1 5 60 5) = account_id account_5"
    by simp
  from mem own created rcp dest least rows show ?thesis by (intro conjI)
qed

subsection \<open>C3: the order of the guards\<close>

text \<open>
  Claim C3, as the handler has it, for a \<^verbatim>\<open>toUserId\<close> that arrives as a number. The
  same-user check (caller = \<^verbatim>\<open>toUserId\<close>) is the first guard after validation: a
  self-transfer is rejected before any look-up, ownership check or balance check. The
  same-account check is not part of it: with both accounts found, the ownership check
  and then the balance check answer first, also when the source is the derived
  destination. With unique account ids a transfer whose source is the derived
  destination never reaches the balance check: it is rejected by the same-user check or
  by the ownership check.
\<close>

theorem create_transfer_guard_order:
  "(errors = [] \<and> flt \<noteq> FaultSetup \<and> toUserId req = IdNumber userId \<longrightarrow>
      create_transfer on_insert flt errors userId req d = (CannotTransferToYourself, d))
   \<and> (\<forall>fromAccount fromRest toAccount toRest.
        errors = [] \<and> flt = NoFault \<and> \<not> strict_equal userId (toUserId req)
        \<and> select_account d (id_value (fromAccountId req)) = fromAccount # fromRest
        \<and> select_recipient_account d (id_value (toUserId req)) = toAccount # toRest \<longrightarrow>
          (account_user_id fromAccount \<noteq> userId \<longrightarrow>
             create_transfer on_insert flt errors userId req d = (NoPermission, d))
          \<and> (account_user_id fromAccount = userId
               \<and> number_less (round_to_double (current_balance fromAccount))
                    (number_add (parseFloat (amount req)) (parseFloat (feeAmount req))) \<longrightarrow>
             create_transfer on_insert flt errors userId req d
               = (InsufficientBalance (current_balance fromAccount)
                    (number_add (parseFloat (amount req)) (parseFloat (feeAmount req))), d)))
   \<and> (\<forall>recipient toAccount toRest.
        distinct (map account_id (accounts d)) \<and> errors = [] \<and> flt = NoFault
        \<and> toUserId req = IdNumber recipient
        \<and> select_recipient_account d recipient = toAccount # toRest
        \<and> id_value (fromAccountId req) = account_id toAccount \<longrightarrow>
          create_transfer on_insert flt errors userId req d = (CannotTransferToYourself, d)
          \<or> create_transfer on_insert flt errors userId req d = (NoPermission, d))"
proof (intro conjI allI impI)
  assume "errors = [] \<and> flt \<noteq> FaultSetup \<and> toUserId req = IdNumber userId"
  then show "create_transfer on_insert flt errors userId req d = (CannotTransferToYourself, d)"
    by (simp add: create_transfer_def strict_equal_def)
next
  fix fromAccount fromRest toAccount toRest
  assume "errors = [] \<and> flt = NoFault \<and> \<not> strict_equal userId (toUserId req)
        \<and> select_account d (id_value (fromAccountId req)) = fromAccount # fromRest
        \<and> select_recipient_account d (id_value (toUserId req)) = toAccount # toRest"
     and "account_user_id fromAccount \<noteq> userId"
  then show "create_transfer on_insert flt errors userId req d = (NoPermission, d)"
    by (simp add: create_transfer_def)
next
  fix fromAccount fromRest toAccount toRest
  assume "errors = [] \<and> flt = NoFault \<and> \<not> strict_equal userId (toUserId req)
        \<and> select_account d (id_value (fromAccountId req)) = fromAccount # fromRest
        \<and> select_recipient_account d (id_value (toUserId req)) = toAccount # toRest"
     and "account_user_id fromAccount = userId
               \<and> number_less (round_to_double (current_balance fromAccount))
                    (number_add (parseFloat (amount req)) (parseFloat (feeAmount req)))"
  then show "create_transfer on_insert flt errors userId req d
               = (InsufficientBalance (current_balance fromAccount)
                    (number_add (parseFloat (amount req)) (parseFloat (feeAmount req))), d)"
    by (simp add: create_transfer_def)
next
  fix recipient toAccount toRest
  assume h: "distinct (map account_id (accounts d)) \<and> errors = [] \<and> flt = NoFault
        \<and> toUserId req = IdNumber recipient
        \<and> select_recipient_account d recipient = toAccount # toRest
        \<and> id_value (fromAccountId req) = account_id toAccount"
  then have sel: "select_recipient_account d recipient = toAccount # toRest" by simp
  from select_recipient_account_min [OF sel]
  have mem: "toAccount \<in> set (accounts d)" and own: "account_user_id toAccount = recipient"
    by auto
  from h mem have src: "select_account d (id_value (fromAccountId req)) = [toAccount]"
    by (simp add: select_account_singleton)
  show "create_transfer on_insert flt errors userId req d = (CannotTransferToYourself, d)
          \<or> create_transfer on_insert flt errors userId req d = (NoPermission, d)"
    using h src sel own by (auto simp: create_transfer_def strict_equal_def)
qed

text \<open>
  User 1 names account 5 as the source and user 2 as the recipient; account 5 is the
  derived destination. The answer is the ownership failure, not the same-account one:
  the same-account check is not the first guard.
\<close>

theorem create_transfer_guard_order_counterexample:
  "select_recipient_account scenario_db (id_value (toUserId (scenario_request 5 2 10 0)))
     = [account_5]
   \<and> id_value (fromAccountId (scenario_request 5 2 10 0)) = account_id account_5
   \<and> create_transfer balance_trigger NoFault [] 1 (scenario_request 5 2 10 0) scenario_db
       = (NoPermission, scenario_db)
   \<and> fst (create_transfer balance_trigger NoFault [] 1 (scenario_request 5 2 10 0) scenario_db)
       \<noteq> SameAccounts"
  by (simp add: scenario_simps scenario_data)

text \<open>A self-transfer, a foreign source account and a balance too low, in the scenario.\<close>

theorem create_transfer_guard_order_witness:
  "toUserId (scenario_request 1 1 96 5) = IdNumber 1
   \<and> create_transfer balance_trigger NoFault [] 1 (scenario_request 1 1 96 5) scenario_db
     = (CannotTransferToYourself, scenario_db)
   \<and> create_transfer balance_trigger NoFault [] 1 (scenario_request 5 2 10 0) scenario_db
     = (NoPermission, scenario_db)
   \<and> create_transfer balance_trigger NoFault [] 1 (scenario_request 1 2 96 5) scenario_db
     = (InsufficientBalance 100 (Finite 101), scenario_db)
   \<and> distinct (map account_id (accounts scenario_db))
   \<and> id_value (fromAccountId (scenario_request 5 2 10 0)) = account_id account_5"
proof -
  have s1: "select_account scenario_db (id_value (fromAccountId (scenario_request 1 2 96 5)))
              = account_1 # []"
    and s5: "select_account scenario_db (id_value (fromAccountId (scenario_request 5 2 10 0)))
              = account_5 # []"
    and r2: "select_recipient_account scenario_db (id_value (toUserId (scenario_request 5 2 10 0)))
              = account_5 # []"
    and r2': "select_recipient_account scenario_db (id_value (toUserId (scenario_request 1 2 96 5)))
              = account_5 # []"
    and pk: "distinct (map account_id (accounts scenario_db))"
    by (simp_all add: scenario_simps scenario_data)
  have u: "toUserId (scenario_request src rcpt amt fee) = IdNumber rcpt"
    and a: "amount (scenario_request src rcpt amt fee) = amt"
    and f: "feeAmount (scenario_request src rcpt amt fee) = fee"
    and i: "fromAccountId (scenario_request src rcpt amt fee) = IdNumber src" for src rcpt amt fee
    by (simp_all add: scenario_request_def)
  have low: "number_less (round_to_double 100) (number_add (parseFloat 96) (parseFloat 5))"
    and sum: "number_add (parseFloat 96) (parseFloat 5) = Finite 101"
    by (simp_all add: parseFloat_def double_values)
  note g1 = create_transfer_guard_order
              [of "[]" NoFault "scenario_request 1 1 96 5" 1 balance_trigger scenario_db]
  note g2 = create_transfer_guard_order
              [of "[]" NoFault "scenario_request 5 2 10 0" 1 balance_trigger scenario_db]
  note g3 = create_transfer_guard_order
              [of "[]" NoFault "scenario_request 1 2 96 5" 1 balance_trigger scenario_db]
  have c1: "create_transfer balance_trigger NoFault [] 1 (scenario_request 1 1 96 5) scenario_db
             = (CannotTransferToYourself, scenario_db)"
    using g1 by (simp add: u)
  from g2 s5 r2 have c2: "create_transfer balance_trigger NoFault [] 1 (scenario_request 5 2 10 0)
             scenario_db = (NoPermission, scenario_db)"
    by (simp add: u strict_equal_def account_5_def)
  from g3 s1 r2' low have c3: "create_transfer balance_trigger NoFault [] 1 (scenario_request 1 2 96 5)
             scenario_db = (InsufficientBalance 100 (Finite 101), scenario_db)"
    by (simp add: u a f sum strict_equal_def account_1_def)
  from c1 c2 c3 pk show ?thesis by (simp add: i u account_5_def)
qed

subsection \<open>C4: the balances of a transfer\<close>

text \<open>
  Claim C4 fails on a request the validation lets pass. User 1 sends the ids as
  strings, \<^verbatim>\<open>fromAccountId: "1"\<close> and \<^verbatim>\<open>toUserId: "1"\<close>, with amount 60.00 and fee
  5.00. \<^verbatim>\<open>userId === toUserId\<close> compares the number 1 with the string and is false;
  the recipient look-up answers user 1's own account 1; \<^verbatim>\<open>fromAccountId ===
  toAccountId\<close> compares the string with the number 1 and is false. The transfer from
  account 1 to account 1 is recorded and answered with 201. With the trigger of the
  specification the one account is debited by 65.00 and credited by 60.00: its balance
  goes from 100.00 to 95.00, not to 35.00, and no destination gains 60.00. The same
  request with numbers as ids is rejected by the same-user check.
\<close>

theorem create_transfer_same_account:
  "create_transfer balance_trigger NoFault [] 1 (form_request 1 1 60 5) scenario_db
     = (TransferCreated (scenario_row 1 1 60 5) (Finite 95) (Finite 95),
        scenario_db \<lparr> accounts := [account_1 \<lparr> current_balance := 95 \<rparr>, account_5, account_7],
                      transfers := [scenario_row 1 1 60 5] \<rparr>)
   \<and> from_account_id (scenario_row 1 1 60 5) = to_account_id (scenario_row 1 1 60 5)
   \<and> select_account scenario_db 1 = [account_1] \<and> current_balance account_1 = 100
   \<and> create_transfer balance_trigger NoFault [] 1 (scenario_request 1 1 60 5) scenario_db
       = (CannotTransferToYourself, scenario_db)"
  by (simp add: scenario_simps scenario_data)

section \<open>Properties of the budgets\<close>


subsection \<open>C5: a rejected budget stores nothing\<close>









subsection \<open>C10: what totalSpent counts\<close>












lemmas spending_simps =
  spending_db_def budget_detail_route_def budget_analytics_route_def total_spent_def
  categoriesResult_def budget_category_join_def category_transactions_def detail_key_def
  spendingTrend_def trend_join_def categoryDistribution_def distribution_join_def
  distribution_key_def distribution_transactions_def js_divide_def Let_def




subsection \<open>C6: the utilization percentage\<close>

text \<open>
  Claim C6 at a budget whose only allocation has \<^verbatim>\<open>allocated_amount\<close> 0 and 50.00
  spent: the detail handler and the analytics handler divide by the allocation as it
  is, and the utilization of the category is infinite in both responses; the
  utilization of the budget itself in the detail response is \<^verbatim>\<open>NaN\<close>. The budget
  list guards its own percentage (0 for a limit of 0).
\<close>

theorem utilization_divides_raw:
  "budget_detail_route 1 1 (spending_db 0)
     = Some \<lparr> bd_id = 1, bd_name = ''May'', bd_startDate = 100, bd_endDate = 130,
              bd_totalLimit = 500, bd_totalSpent = 80, bd_remainingAmount = NaN,
              bd_utilizationPercentage = NaN, bd_isActive = True,
              bd_categories =
                [\<lparr> cd_id = 1, cd_name = ''Food'', cd_type = ''expense'',
                   cd_allocatedAmount = 0, cd_spentAmount = 50, cd_remainingAmount = - 50,
                   cd_utilizationPercentage = PosInfinity \<rparr>] \<rparr>
   \<and> budget_analytics_route 1 1 (spending_db 0)
     = Some ([\<lparr> tp_date = 110, tp_amount = 50, tp_transactionCount = 1 \<rparr>],
             [\<lparr> dr_categoryName = ''Food'', dr_allocatedAmount = 0, dr_spentAmount = 50,
                dr_transactionCount = 1, dr_utilizationPercentage = PosInfinity \<rparr>])
   \<and> map bs_percentUsed
         (budget_list 120 1 \<lparr> q_active = None, q_startDate = None, q_endDate = None \<rparr>
            ((spending_db 0) \<lparr> budgets := map (\<lambda>b. b \<lparr> total_budget := 0 \<rparr>)
                                              (budgets (spending_db 0)) \<rparr>))
     = [Finite 0]"
  by (simp add: spending_simps budget_list_def budget_list_rows_def)

section \<open>Properties of the reports\<close>

subsection \<open>C7: the financial-health score\<close>

lemma blocks_score:
  "fst (balance_block m st) = fst st + balance_band (parseFloat (total_balance_m m))"
  "fst (ratio_block m st)
     = fst st + ratio_band (parseFloat (monthly_income m)) (parseFloat (monthly_expenses m))"
  "fst (budget_block m st) = fst st + spec_budget_band (active_budgets m)"
  "fst (account_block m st) = fst st + spec_account_band (account_count m)"
  by (simp_all add: balance_block_def ratio_block_def budget_block_def account_block_def
        balance_band_def ratio_band_def spec_budget_band_def spec_account_band_def
        Let_def)

text \<open>
  Claim C7, as the handler has it. The score is the sum of the four bands, the balance
  band and the ratio band being read on doubles: the balance is \<^verbatim>\<open>parseFloat\<close> of
  the sum of the balances, the ratio is the rounded quotient of the doubles of
  expenses and income, compared with the doubles nearest to 0.5, 0.7 and 0.9. The level
  is the label of the score by the thresholds 80, 60 and 40, the score never exceeds
  100, and for balance 12000, monthly income 3000, monthly expenses 1200, one active
  budget and three accounts the score is 100 and the level ``Excellent''.
\<close>

theorem financial_health_score:
  "healthScore (financial_health m)
     = balance_band (parseFloat (total_balance_m m))
       + ratio_band (parseFloat (monthly_income m)) (parseFloat (monthly_expenses m))
       + spec_budget_band (active_budgets m)
       + spec_account_band (account_count m)
   \<and> healthLevel (financial_health m) = spec_level (healthScore (financial_health m))
   \<and> healthScore (financial_health m) \<le> 100
   \<and> healthScore (financial_health
        \<lparr> total_balance_m = 12000, account_count = 3, monthly_income = 3000,
          monthly_expenses = 1200, active_budgets = 1 \<rparr>) = 100
   \<and> healthLevel (financial_health
        \<lparr> total_balance_m = 12000, account_count = 3, monthly_income = 3000,
          monthly_expenses = 1200, active_budgets = 1 \<rparr>) = ''Excellent''"
proof -
  have score: "healthScore (financial_health m)
     = balance_band (parseFloat (total_balance_m m))
       + ratio_band (parseFloat (monthly_income m)) (parseFloat (monthly_expenses m))
       + spec_budget_band (active_budgets m)
       + spec_account_band (account_count m)" for m
    by (simp add: financial_health_def Let_def blocks_score)
  have level: "healthLevel (financial_health m) = spec_level (healthScore (financial_health m))"
    for m
    by (simp add: financial_health_def Let_def health_level_def spec_level_def)
  have bound: "healthScore (financial_health m) \<le> 100"
    unfolding score
    by (simp add: balance_band_def ratio_band_def spec_budget_band_def
          spec_account_band_def)
  have bands: "balance_band (parseFloat 12000) = 30"
    "ratio_band (parseFloat 3000) (parseFloat 1200) = 30"
    by code_simp+
  have s100: "healthScore (financial_health
        \<lparr> total_balance_m = 12000, account_count = 3, monthly_income = 3000,
          monthly_expenses = 1200, active_budgets = 1 \<rparr>) = 100"
    unfolding score
    by (simp add: bands spec_budget_band_def spec_account_band_def)
  have "healthLevel (financial_health
        \<lparr> total_balance_m = 12000, account_count = 3, monthly_income = 3000,
          monthly_expenses = 1200, active_budgets = 1 \<rparr>) = ''Excellent''"
    by (simp only: level [where m = "\<lparr> total_balance_m = 12000, account_count = 3, monthly_income = 3000,
          monthly_expenses = 1200, active_budgets = 1 \<rparr>"] s100) (simp add: spec_level_def)
  with score level bound s100 show ?thesis by blast
qed

text \<open>
  The bands read on the decimals give another score: with a monthly income of 0.10 and
  monthly expenses of 0.09 the ratio is 0.9, which is not below 0.9, and the ratio
  band of the claim is 0. The handler divides the double of 0.09 by the double of
  0.10, which gives 0.8999999999999999, below the double of 0.9, and adds 10: with a
  balance of 12000, two accounts and no budget the score is 50 and the level ``Fair'',
  where the bands of the claim give 40.
\<close>

theorem financial_health_score_counterexample:
  "(9 / 100) / (1 / 10) = (9 / 10 :: rat)
   \<and> spec_ratio_band (1 / 10) (9 / 100) = 0
   \<and> spec_score \<lparr> total_balance_m = 12000, account_count = 2, monthly_income = 1 / 10,
                  monthly_expenses = 9 / 100, active_budgets = 0 \<rparr> = 40
   \<and> number_divide (parseFloat (9 / 100)) (parseFloat (1 / 10))
       = Finite (8106479329266892 / 9007199254740992)
   \<and> round_to_double (9 / 10) = Finite (8106479329266893 / 9007199254740992)
   \<and> healthScore (financial_health
        \<lparr> total_balance_m = 12000, account_count = 2, monthly_income = 1 / 10,
          monthly_expenses = 9 / 100, active_budgets = 0 \<rparr>) = 50
   \<and> healthLevel (financial_health
        \<lparr> total_balance_m = 12000, account_count = 2, monthly_income = 1 / 10,
          monthly_expenses = 9 / 100, active_budgets = 0 \<rparr>) = ''Fair''"
  by code_simp

subsection \<open>C8: what a failed operation answers\<close>

lemma transfer_success_cases:
  "transfer_success r \<Longrightarrow> \<exists>t fb tb. r = TransferCreated t fb tb"
  by (cases r) simp_all










section \<open>Properties of the receipts\<close>

subsection \<open>C9: transactions created from one receipt\<close>










end
